theory Spec2Isabelle
  imports Complex_Main "HOL-Library.Log_Nat"
begin

section \<open>The energy-optimizer dashboard: telemetry generator and ROI calculator\<close>

text \<open>
  The repository is one Streamlit script, \<^verbatim>\<open>energy_optimize_Demo.py\<close>. Two parts of it
  compute something: \<^verbatim>\<open>generate_resource_data\<close> (lines 50-79), which builds 168 hourly
  telemetry samples from a sine wave and Gaussian noise, and the ROI calculator of
  \<^verbatim>\<open>main\<close> (lines 289-336), which turns three widget values into savings figures.

  Python's \<^verbatim>\<open>int\<close> is \<^typ>\<open>int\<close>. Python's \<^verbatim>\<open>float\<close> is modelled twice. In
  \<open>estimate\<close> and in the generator it is \<^typ>\<open>real\<close>, with every operation the exact one;
  this serves the properties that are about signs, order, sizes to two decimals and
  the shape of the results. In \<open>estimate_f64\<close> it is the IEEE 754 double the interpreter
  computes with, every operation rounded; this serves the one property that asks whether
  two different floating-point expressions give the same number.
\<close>

subsection \<open>Python values\<close>

text \<open>
  A Python variable holds a value of any type. \<^verbatim>\<open>roi_months\<close> is bound to a float on one
  branch of line 307 and to the integer literal \<^verbatim>\<open>0\<close> on the other, so its model keeps the tag.
\<close>

datatype pyval = PInt int | PFloat real | PStr string

subsection \<open>The ROI calculator (\<^verbatim>\<open>main\<close>, lines 289-336)\<close>

text \<open>
  The three inputs are the values of the widgets of lines 289-291:
  \<^verbatim>\<open>num_servers = st.number_input("Number of Servers", value=50, min_value=1)\<close>,
  \<^verbatim>\<open>avg_monthly_cost = st.number_input("Average Monthly Cost ($)", value=15000, min_value=100)\<close>,
  \<^verbatim>\<open>current_efficiency = st.slider("Current Efficiency (%)", 30, 90, 65)\<close>.
  All three widgets are given integer arguments and return Python integers.
\<close>

record roi_result =
  optimization_potential :: real
  monthly_savings :: real
  annual_savings :: real
  roi_months :: pyval
  months :: "int list"
  cumulative_savings :: "real list"
  energy_saved :: real
  carbon_reduced :: real
  trees_equivalent :: real

text \<open>\<^verbatim>\<open>implementation_cost = 25000\<close> (line 306).\<close>

definition implementation_cost :: int where
  "implementation_cost = 25000"

text \<open>\<^verbatim>\<open>range(a, b)\<close>: the integers from \<open>a\<close> up to \<open>b - 1\<close>.\<close>

definition range_py :: "int \<Rightarrow> int \<Rightarrow> int list" where
  "range_py a b = [a..b - 1]"

text \<open>
  Lines 294-296 (savings), 306-307 (ROI), 312-313 (cumulative series) and 327-335
  (environmental impact), in the order of the source. The result collects every variable
  the block binds.
\<close>

definition estimate :: "int \<Rightarrow> int \<Rightarrow> int \<Rightarrow> roi_result" where
  "estimate num_servers avg_monthly_cost current_efficiency =
     (let optimization_potential = real_of_int (85 - current_efficiency) / 85 * 100;
          monthly_savings = real_of_int avg_monthly_cost * (optimization_potential / 100) * 0.3;
          annual_savings = monthly_savings * 12;
          roi_months = (if monthly_savings > 0
                        then PFloat (real_of_int implementation_cost / monthly_savings)
                        else PInt 0);
          months = range_py 1 13;
          cumulative_savings = map (\<lambda>i. monthly_savings * real_of_int i) months;
          energy_saved = annual_savings * 0.8;
          carbon_reduced = energy_saved * 0.4;
          trees_equivalent = carbon_reduced / 21
      in \<lparr> optimization_potential = optimization_potential,
           monthly_savings = monthly_savings,
           annual_savings = annual_savings,
           roi_months = roi_months,
           months = months,
           cumulative_savings = cumulative_savings,
           energy_saved = energy_saved,
           carbon_reduced = carbon_reduced,
           trees_equivalent = trees_equivalent \<rparr>)"

subsection \<open>The savings figures in double precision\<close>

text \<open>
  A finite IEEE 754 double is a rational \<open>m * 2 ^ e\<close> with \<open>\<bar>m\<bar> < 2 ^ 53\<close>, and every
  arithmetic operation returns the exact result rounded to the nearest double, a tie going
  to the even mantissa. \<open>ilog2 x\<close> is the exponent \<open>e\<close> with \<open>2 ^ e \<le> \<bar>x\<bar> < 2 ^ (e + 1)\<close>,
  found from the bit lengths of numerator and denominator; \<open>fl\<close> rounds to 53 significant
  bits. The exponent range is not bounded: a double overflows from \<open>2 ^ 1024\<close> on and
  loses bits below \<open>2 ^ - 1022\<close>, magnitudes the savings figures stay far from for every
  cost the widget can deliver.
\<close>

type_synonym f64 = rat

definition ilog2 :: "rat \<Rightarrow> int" where
  "ilog2 x =
     (let (p, q) = quotient_of \<bar>x\<bar>;
          d = bitlen p - bitlen q
      in if 2 powi d \<le> \<bar>x\<bar> then d else d - 1)"

definition round_half_even :: "rat \<Rightarrow> int" where
  "round_half_even x =
     (let f = \<lfloor>x\<rfloor>;
          r = x - of_int f
      in if r < 1 / 2 then f
         else if r > 1 / 2 then f + 1
         else if even f then f else f + 1)"

definition fl :: "rat \<Rightarrow> f64" where
  "fl x =
     (if x = 0 then 0
      else let ulp = 2 powi (ilog2 x - 52)
           in of_int (round_half_even (x / ulp)) * ulp)"

text \<open>
  An integer operand is converted to a double first; \<^verbatim>\<open>*\<close> and \<^verbatim>\<open>/\<close> round their exact
  result.
\<close>

definition float_of_int :: "int \<Rightarrow> f64" where
  "float_of_int n = fl (of_int n)"

definition float_mul :: "f64 \<Rightarrow> f64 \<Rightarrow> f64" where
  "float_mul a b = fl (a * b)"

definition float_div :: "f64 \<Rightarrow> f64 \<Rightarrow> f64" where
  "float_div a b = fl (a / b)"

text \<open>
  Lines 294-296 and 327-335 once more, in Python's order of evaluation. On line 294
  \<^verbatim>\<open>(85 - current_efficiency) / 85\<close> divides two integers, which gives the correctly
  rounded quotient; the literals \<^verbatim>\<open>0.3\<close>, \<^verbatim>\<open>0.8\<close> and \<^verbatim>\<open>0.4\<close> are the doubles nearest to
  them.
\<close>

record roi_f64 =
  optimization_potential_f64 :: f64
  monthly_savings_f64 :: f64
  annual_savings_f64 :: f64
  energy_saved_f64 :: f64
  carbon_reduced_f64 :: f64
  trees_equivalent_f64 :: f64

definition estimate_f64 :: "int \<Rightarrow> int \<Rightarrow> int \<Rightarrow> roi_f64" where
  "estimate_f64 num_servers avg_monthly_cost current_efficiency =
     (let optimization_potential =
            float_mul (fl (of_int (85 - current_efficiency) / 85)) (float_of_int 100);
          monthly_savings =
            float_mul (float_mul (float_of_int avg_monthly_cost)
                                 (float_div optimization_potential (float_of_int 100)))
                      (fl (3 / 10));
          annual_savings = float_mul monthly_savings (float_of_int 12);
          energy_saved = float_mul annual_savings (fl (8 / 10));
          carbon_reduced = float_mul energy_saved (fl (4 / 10));
          trees_equivalent = float_div carbon_reduced (float_of_int 21)
      in \<lparr> optimization_potential_f64 = optimization_potential,
           monthly_savings_f64 = monthly_savings,
           annual_savings_f64 = annual_savings,
           energy_saved_f64 = energy_saved,
           carbon_reduced_f64 = carbon_reduced,
           trees_equivalent_f64 = trees_equivalent \<rparr>)"

subsection \<open>The telemetry generator (\<^verbatim>\<open>generate_resource_data\<close>, lines 50-79)\<close>

text \<open>
  A pandas timestamp is a count of nanoseconds since 1970-01-01 00:00. The date
  \<^verbatim>\<open>'2025-01-01'\<close> of line 53 is turned into that count by the usual days-from-civil
  formula of the proleptic Gregorian calendar; the frequency \<^verbatim>\<open>'H'\<close> is one hour.
\<close>

type_synonym timestamp = int

definition days_from_civil :: "int \<Rightarrow> int \<Rightarrow> int \<Rightarrow> int" where
  "days_from_civil y m d =
     (let y' = (if m \<le> 2 then y - 1 else y);
          era = y' div 400;
          yoe = y' - era * 400;
          doy = (153 * (if m > 2 then m - 3 else m + 9) + 2) div 5 + d - 1;
          doe = yoe * 365 + yoe div 4 - yoe div 100 + doy
      in era * 146097 + doe - 719468)"

definition hour_ns :: int where
  "hour_ns = 3600 * 1000000000"

definition pd_Timestamp :: "int \<Rightarrow> int \<Rightarrow> int \<Rightarrow> timestamp" where
  "pd_Timestamp y m d = days_from_civil y m d * 24 * hour_ns"

text \<open>\<^verbatim>\<open>pd.date_range(start=..., periods=..., freq=...)\<close>: \<open>periods\<close> timestamps, \<open>freq\<close> apart.\<close>

definition date_range :: "timestamp \<Rightarrow> nat \<Rightarrow> int \<Rightarrow> timestamp list" where
  "date_range start periods freq = map (\<lambda>k. start + int k * freq) [0..<periods]"

text \<open>
  \<^verbatim>\<open>random.gauss(mu, sigma)\<close> returns \<open>mu + z * sigma\<close>, where \<open>z\<close> is the next standard
  normal variate of the \<^verbatim>\<open>random\<close> module's hidden generator. The script never seeds that
  generator (\<^verbatim>\<open>np.random.seed(42)\<close> on line 52 seeds numpy's, which the function does not
  use), so the variates are an input of the model: the sequence \<open>z\<close> of variates to come,
  and as state the number of variates drawn so far.
\<close>

type_synonym rng = "nat \<Rightarrow> real"

definition gauss :: "rng \<Rightarrow> real \<Rightarrow> real \<Rightarrow> nat \<Rightarrow> real \<times> nat" where
  "gauss z mu sigma k = (mu + z k * sigma, Suc k)"

text \<open>One row of the data frame: the dictionary of lines 67-77.\<close>

record telemetry_sample =
  timestamp :: timestamp
  cpu_usage :: real
  memory_usage :: real
  gpu_usage :: real
  cpu_waste :: real
  memory_waste :: real
  gpu_waste :: real
  energy_cost :: real
  carbon_footprint :: real

text \<open>
  The body of the loop (lines 58-77) for index \<open>i\<close> and timestamp \<open>hour\<close>. The eight calls
  of \<^verbatim>\<open>random.gauss\<close> are threaded in the order Python evaluates them: line 60, lines
  63-65, then lines 69, 70, 75 and 76 inside the dictionary.
\<close>

definition loop_body :: "rng \<Rightarrow> nat \<Rightarrow> timestamp \<Rightarrow> nat \<Rightarrow> telemetry_sample \<times> nat" where
  "loop_body z i hour k0 =
     (let base_cpu = 45 + 20 * sin (2 * pi * real i / 24);
          base_memory = 60 + 15 * sin (2 * pi * real i / 24);
          (g1, k1) = gauss z 0 10 k0;
          base_gpu = max 0 (30 + 40 * sin (2 * pi * real i / 24) + g1);
          (g2, k2) = gauss z 15 5 k1;
          cpu_waste = max 0 g2;
          (g3, k3) = gauss z 10 5 k2;
          memory_waste = max 0 g3;
          (g4, k4) = gauss z 20 8 k3;
          gpu_waste = max 0 g4;
          (g5, k5) = gauss z 0 5 k4;
          (g6, k6) = gauss z 0 5 k5;
          (g7, k7) = gauss z 0 2 k6;
          (g8, k8) = gauss z 0 1 k7
      in (\<lparr> timestamp = hour,
            cpu_usage = min 95 (base_cpu + g5),
            memory_usage = min 95 (base_memory + g6),
            gpu_usage = min 95 base_gpu,
            cpu_waste = cpu_waste,
            memory_waste = memory_waste,
            gpu_waste = gpu_waste,
            energy_cost = (base_cpu + base_memory + base_gpu) * 0.12 + g7,
            carbon_footprint = (base_cpu + base_memory + base_gpu) * 0.05 + g8 \<rparr>, k8))"

text \<open>
  \<^verbatim>\<open>for i, hour in enumerate(hours): ... data.append({...})\<close>: the loop over the indexed
  timestamps, with the generator state and the list built so far.
\<close>

fun generate_loop ::
  "rng \<Rightarrow> (nat \<times> timestamp) list \<Rightarrow> nat \<Rightarrow> telemetry_sample list \<Rightarrow> telemetry_sample list \<times> nat" where
  "generate_loop z [] k data = (data, k)"
| "generate_loop z ((i, hour) # rest) k data =
     (case loop_body z i hour k of (s, k') \<Rightarrow> generate_loop z rest k' (data @ [s]))"

text \<open>
  The function itself: the rows of the returned data frame, and the generator state after
  the call. The cache of \<^verbatim>\<open>@st.cache_data\<close> only replays a result and is left out.
\<close>

definition generate_resource_data :: "rng \<Rightarrow> nat \<Rightarrow> telemetry_sample list \<times> nat" where
  "generate_resource_data z k =
     (let hours = date_range (pd_Timestamp 2025 1 1) 168 hour_ns
      in generate_loop z (enumerate 0 hours) k [])"

subsection \<open>One run of the script (\<^verbatim>\<open>main\<close>, lines 129-336)\<close>

text \<open>
  Streamlit runs \<^verbatim>\<open>main\<close> again on every interaction. Besides the widget values, a run
  sees the state of the process: the hidden generator of the \<^verbatim>\<open>random\<close> module (its
  variates to come and how many were drawn) and the cache that \<^verbatim>\<open>@st.cache_data\<close> keeps
  for \<^verbatim>\<open>generate_resource_data\<close>.
\<close>

record session =
  variates :: rng
  drawn :: nat
  cached_data :: "telemetry_sample list option"

text \<open>
  \<^verbatim>\<open>df = generate_resource_data()\<close> (line 145) behind its cache: a cached data frame is
  returned as it is; otherwise the function runs, draws from the generator, and its result
  is stored.
\<close>

definition cached_generate_resource_data :: "session \<Rightarrow> telemetry_sample list \<times> session" where
  "cached_generate_resource_data s =
     (case cached_data s of
        Some df \<Rightarrow> (df, s)
      | None \<Rightarrow>
          (case generate_resource_data (variates s) (drawn s) of
             (df, k) \<Rightarrow> (df, s\<lparr>drawn := k, cached_data := Some df\<rparr>)))"

text \<open>
  What a run computes: the data frame (lines 145-195 display it and sums over its last
  rows) and the calculator's figures (lines 289-336). Lines 197-280 show constant texts.
\<close>

record run_result =
  data_frame :: "telemetry_sample list"
  roi :: roi_result

definition main :: "session \<Rightarrow> int \<Rightarrow> int \<Rightarrow> int \<Rightarrow> run_result \<times> session" where
  "main s num_servers avg_monthly_cost current_efficiency =
     (case cached_generate_resource_data s of
        (df, s') \<Rightarrow>
          (\<lparr> data_frame = df,
             roi = estimate num_servers avg_monthly_cost current_efficiency \<rparr>, s'))"

subsection \<open>The fields of the result\<close>

lemma optimization_potential_eq:
  "optimization_potential (estimate n c e) = real_of_int (85 - e) / 85 * 100"
  by (simp add: estimate_def Let_def)

lemma monthly_savings_eq:
  "monthly_savings (estimate n c e) =
     real_of_int c * (real_of_int (85 - e) / 85 * 100 / 100) * 0.3"
  by (simp add: estimate_def Let_def)

lemma annual_savings_eq:
  "annual_savings (estimate n c e) = monthly_savings (estimate n c e) * 12"
  by (simp add: estimate_def Let_def)

lemma roi_months_eq:
  "roi_months (estimate n c e) =
     (if monthly_savings (estimate n c e) > 0
      then PFloat (real_of_int implementation_cost / monthly_savings (estimate n c e))
      else PInt 0)"
  by (simp only: estimate_def Let_def roi_result.select_convs)

lemma cumulative_savings_eq:
  "cumulative_savings (estimate n c e) =
     map (\<lambda>i. monthly_savings (estimate n c e) * real_of_int i) [1..12]"
  by (simp add: estimate_def Let_def range_py_def)

text \<open>
  Savings fall as the efficiency rises, for any cost that is not negative: the only
  occurrence of the efficiency is in \<open>85 - current_efficiency\<close>, and every later factor
  is positive.
\<close>

lemma monthly_savings_antimono:
  assumes "0 \<le> c" and "e1 \<le> e2"
  shows "monthly_savings (estimate n c e2) \<le> monthly_savings (estimate n c e1)"
proof -
  have "real_of_int (85 - e2) \<le> real_of_int (85 - e1)"
    using assms by simp
  then have "real_of_int (85 - e2) / 85 * 100 / 100 \<le> real_of_int (85 - e1) / 85 * 100 / 100"
    by (simp add: divide_right_mono)
  moreover have "0 \<le> real_of_int c"
    using assms by simp
  ultimately have "real_of_int c * (real_of_int (85 - e2) / 85 * 100 / 100)
      \<le> real_of_int c * (real_of_int (85 - e1) / 85 * 100 / 100)"
    by (rule mult_left_mono)
  then show ?thesis
    by (simp add: monthly_savings_eq)
qed

subsection \<open>The ROI calculator at the efficiency cap\<close>

text \<open>
  C2 (as the spec states it): for every positive server count \<open>x\<close> and positive monthly cost
  \<open>y\<close>, the calculator at efficiency 85 yields monthly savings 0 and reports the ROI months
  as the string "N/A" rather than a number. The code does not: at the default server count
  and cost, with efficiency 85, \<open>monthly_savings > 0\<close> is false and line 307 binds
  \<open>roi_months\<close> to the integer 0, which is not the string "N/A".
\<close>

theorem estimate_85_roi_months_is_not_NA:
  "roi_months (estimate 50 15000 85) = PInt 0 \<and>
   roi_months (estimate 50 15000 85) \<noteq> PStr ''N/A''"
  by (simp add: roi_months_eq monthly_savings_eq)

text \<open>
  C2 (amended): for every server count \<open>x\<close> and monthly cost \<open>y\<close> (positive or not), the
  calculator at efficiency 85 yields monthly savings 0 and binds the ROI months to the
  integer 0, the value of the guard's else branch; no division takes place.
\<close>

theorem estimate_85_zero_savings_zero_roi:
  "monthly_savings (estimate x y 85) = 0 \<and> roi_months (estimate x y 85) = PInt 0"
  by (simp add: roi_months_eq monthly_savings_eq)

subsection \<open>The default inputs\<close>

text \<open>
  C3: with 50 servers, a monthly cost of 15000 and efficiency 65, the optimization potential
  is \<open>(85 - 65) / 85 * 100\<close>, which is 23.53 to two decimals; the monthly savings are
  \<open>15000 * (potential / 100) * 0.30\<close>, which is 1058.82 to two decimals; the annual savings
  are twelve times the monthly savings, which is 12705.88 to two decimals. "To two
  decimals" is a distance below half a cent.
\<close>

theorem estimate_default_inputs:
  "optimization_potential (estimate 50 15000 65) = (85 - 65) / 85 * 100 \<and>
   \<bar>optimization_potential (estimate 50 15000 65) - 23.53\<bar> < 0.005 \<and>
   monthly_savings (estimate 50 15000 65) =
     15000 * (optimization_potential (estimate 50 15000 65) / 100) * 0.30 \<and>
   \<bar>monthly_savings (estimate 50 15000 65) - 1058.82\<bar> < 0.005 \<and>
   annual_savings (estimate 50 15000 65) = monthly_savings (estimate 50 15000 65) * 12 \<and>
   \<bar>annual_savings (estimate 50 15000 65) - 12705.88\<bar> < 0.005"
  by (simp add: optimization_potential_eq monthly_savings_eq annual_savings_eq)

subsection \<open>Rounding to a double\<close>

text \<open>
  The rounding moves a number by at most half a unit in the last place, that is by at most
  \<open>\<bar>x\<bar> / 2 ^ 53\<close>, and the exponent \<open>ilog2\<close> finds is the right one.
\<close>

lemma round_half_even_error: "\<bar>of_int (round_half_even x) - x\<bar> \<le> 1 / 2"
proof -
  define f where "f = \<lfloor>x\<rfloor>"
  have lo: "of_int f \<le> x" and hi: "x < of_int f + 1"
    unfolding f_def by linarith+
  show ?thesis
    unfolding round_half_even_def Let_def f_def [symmetric]
    using lo hi by (simp add: abs_le_iff)
qed

lemma bitlen_lower:
  assumes "0 < p"
  shows "(2::rat) powi (bitlen p - 1) \<le> of_int p"
proof -
  from bitlen_bounds [OF assms] have b: "2 ^ nat (bitlen p - 1) \<le> p"
    by simp
  have "1 \<le> bitlen p"
    using assms bitlen_bounds [of p] bitlen_nonneg [of p]
    by (cases "bitlen p = 0") auto
  then have "(2::rat) powi (bitlen p - 1) = 2 ^ nat (bitlen p - 1)"
    by (simp add: power_int_def)
  also have "\<dots> = of_int (2 ^ nat (bitlen p - 1))"
    by simp
  also have "\<dots> \<le> of_int p"
    using b by (simp only: of_int_le_iff)
  finally show ?thesis .
qed

lemma bitlen_upper:
  assumes "0 < q"
  shows "of_int q \<le> (2::rat) powi (bitlen q)"
proof -
  from bitlen_bounds [OF assms] have b: "q \<le> 2 ^ nat (bitlen q)"
    by simp
  have "(2::rat) powi (bitlen q) = 2 ^ nat (bitlen q)"
    using bitlen_nonneg [of q] by (simp add: power_int_def)
  also have "\<dots> = of_int (2 ^ nat (bitlen q))"
    by simp
  finally have e: "(2::rat) powi (bitlen q) = of_int (2 ^ nat (bitlen q))" .
  show ?thesis
    unfolding e using b by (simp only: of_int_le_iff)
qed

lemma ilog2_lower:
  assumes "x \<noteq> 0"
  shows "2 powi (ilog2 x) \<le> \<bar>x\<bar>"
proof -
  obtain p q where pq: "quotient_of \<bar>x\<bar> = (p, q)"
    by (cases "quotient_of \<bar>x\<bar>")
  have q: "0 < q"
    using pq by (rule quotient_of_denom_pos)
  have x: "\<bar>x\<bar> = of_int p / of_int q"
    using pq by (rule quotient_of_div)
  have "0 < \<bar>x\<bar>"
    using assms by simp
  then have p: "0 < p"
    using q unfolding x by (simp add: zero_less_divide_iff)
  let ?d = "bitlen p - bitlen q"
  show ?thesis
  proof (cases "2 powi ?d \<le> \<bar>x\<bar>")
    case True
    then show ?thesis
      by (simp add: ilog2_def pq)
  next
    case False
    have "(2::rat) powi (?d - 1) = 2 powi (bitlen p - 1) / 2 powi (bitlen q)"
      by (simp add: power_int_diff)
    also have "\<dots> \<le> of_int p / of_int q"
      using bitlen_lower [OF p] bitlen_upper [OF q] p q
      by (intro frac_le) simp_all
    finally have "(2::rat) powi (?d - 1) \<le> \<bar>x\<bar>"
      by (simp only: x)
    with False show ?thesis
      by (simp add: ilog2_def pq)
  qed
qed

lemma fl_error: "\<bar>fl x - x\<bar> \<le> \<bar>x\<bar> / 2 ^ 53"
proof (cases "x = 0")
  case True
  then show ?thesis
    by (simp add: fl_def)
next
  case False
  define ulp :: rat where "ulp = 2 powi (ilog2 x - 52)"
  have ulp_pos: "0 < ulp"
    by (simp add: ulp_def)
  have "fl x - x = (of_int (round_half_even (x / ulp)) - x / ulp) * ulp"
    using False ulp_pos by (simp add: fl_def ulp_def [symmetric] Let_def algebra_simps)
  then have "\<bar>fl x - x\<bar> = \<bar>of_int (round_half_even (x / ulp)) - x / ulp\<bar> * ulp"
    using ulp_pos by (simp add: abs_mult)
  also have "\<dots> \<le> 1 / 2 * ulp"
    using round_half_even_error [of "x / ulp"] ulp_pos
    by (intro mult_right_mono) simp_all
  also have "\<dots> = 2 powi (ilog2 x) / 2 ^ 53"
    by (simp add: ulp_def power_int_diff)
  also have "\<dots> \<le> \<bar>x\<bar> / 2 ^ 53"
    using ilog2_lower [OF False] by (simp add: divide_right_mono)
  finally show ?thesis .
qed


lemma ilog2_upper:
  assumes "x \<noteq> 0"
  shows "\<bar>x\<bar> < 2 powi (ilog2 x + 1)"
proof -
  obtain p q where pq: "quotient_of \<bar>x\<bar> = (p, q)"
    by (cases "quotient_of \<bar>x\<bar>")
  have q: "0 < q"
    using pq by (rule quotient_of_denom_pos)
  have x: "\<bar>x\<bar> = of_int p / of_int q"
    using pq by (rule quotient_of_div)
  have "0 < \<bar>x\<bar>"
    using assms by simp
  then have p: "0 < p"
    using q unfolding x by (simp add: zero_less_divide_iff)
  let ?d = "bitlen p - bitlen q"
  show ?thesis
  proof (cases "2 powi ?d \<le> \<bar>x\<bar>")
    case True
    have "of_int p < (2::rat) powi (bitlen p)"
    proof -
      from bitlen_bounds [OF p] have b: "p < 2 ^ nat (bitlen p)"
        by simp
      have "(2::rat) powi (bitlen p) = of_int (2 ^ nat (bitlen p))"
        using bitlen_nonneg [of p] by (simp add: power_int_def)
      then show ?thesis
        using b by (simp only: of_int_less_iff)
    qed
    then have "of_int p / of_int q < (2::rat) powi (bitlen p) / of_int q"
      using q by (simp add: divide_strict_right_mono)
    also have "\<dots> \<le> 2 powi (bitlen p) / 2 powi (bitlen q - 1)"
      using bitlen_lower [OF q] q by (intro divide_left_mono) simp_all
    also have "\<dots> = 2 powi (?d + 1)"
      by (simp add: power_int_diff power_int_add)
    finally have "\<bar>x\<bar> < 2 powi (?d + 1)"
      by (simp only: x)
    with True show ?thesis
      by (simp add: ilog2_def pq)
  next
    case False
    then show ?thesis
      by (simp add: ilog2_def pq)
  qed
qed

subsection \<open>Environmental impact\<close>

lemma fl_8_10: "fl (8 / 10) = 3602879701896397 / 4503599627370496"
  by code_simp

lemma fl_4_10: "fl (4 / 10) = 3602879701896397 / 9007199254740992"
  by code_simp

lemma two_step_error:
  fixes a c8 c4 :: rat
  assumes c8: "0 \<le> c8" and c4: "0 \<le> c4"
  shows "\<bar>fl (fl (a * c8) * c4) - a * (c8 * c4)\<bar>
           \<le> \<bar>a\<bar> * (c8 * c4 * (2 / 2 ^ 53 + 1 / 2 ^ 106))"
proof -
  define en where "en = fl (a * c8)"
  define ca where "ca = fl (en * c4)"
  define r3 where "r3 = en - a * c8"
  define r4 where "r4 = ca - en * c4"
  have e3: "\<bar>a * c8\<bar> = \<bar>a\<bar> * c8"
    using c8 by (simp add: abs_mult)
  have h3: "\<bar>r3\<bar> \<le> \<bar>a\<bar> * c8 / 2 ^ 53"
    using fl_error [of "a * c8"] unfolding r3_def en_def e3 .
  have "\<bar>en\<bar> = \<bar>a * c8 + r3\<bar>"
    by (simp add: r3_def)
  also have "\<dots> \<le> \<bar>a\<bar> * c8 + \<bar>r3\<bar>"
    using c8 abs_triangle_ineq [of "a * c8" r3] by (simp add: abs_mult)
  also have "\<dots> \<le> \<bar>a\<bar> * c8 + \<bar>a\<bar> * c8 / 2 ^ 53"
    using h3 by (rule add_left_mono)
  finally have en: "\<bar>en\<bar> \<le> \<bar>a\<bar> * c8 * (1 + 1 / 2 ^ 53)"
    by (simp add: algebra_simps)
  have "\<bar>r4\<bar> \<le> \<bar>en * c4\<bar> / 2 ^ 53"
    using fl_error [of "en * c4"] by (simp add: r4_def ca_def)
  also have "\<dots> = \<bar>en\<bar> * (c4 / 2 ^ 53)"
    using c4 by (simp add: abs_mult)
  also have "\<dots> \<le> \<bar>a\<bar> * c8 * (1 + 1 / 2 ^ 53) * (c4 / 2 ^ 53)"
    using en c4 by (intro mult_right_mono) simp_all
  finally have h4: "\<bar>r4\<bar> \<le> \<bar>a\<bar> * c8 * (1 + 1 / 2 ^ 53) * (c4 / 2 ^ 53)" .
  have "ca - a * (c8 * c4) = r3 * c4 + r4"
    by (simp add: r3_def r4_def algebra_simps)
  then have "\<bar>ca - a * (c8 * c4)\<bar> \<le> \<bar>r3 * c4\<bar> + \<bar>r4\<bar>"
    by (simp only: abs_triangle_ineq)
  also have "\<bar>r3 * c4\<bar> = \<bar>r3\<bar> * c4"
    using c4 by (simp add: abs_mult)
  also have "\<bar>r3\<bar> * c4 + \<bar>r4\<bar>
      \<le> \<bar>a\<bar> * c8 / 2 ^ 53 * c4 + \<bar>a\<bar> * c8 * (1 + 1 / 2 ^ 53) * (c4 / 2 ^ 53)"
    using h3 h4 c4 by (intro add_mono mult_right_mono) simp_all
  also have "\<dots> = \<bar>a\<bar> * (c8 * c4 * (2 / 2 ^ 53 + 1 / 2 ^ 106))"
    by (simp add: algebra_simps)
  finally show ?thesis
    by (simp only: ca_def en_def)
qed

lemma carbon_reduced_f64_close:
  "\<bar>carbon_reduced_f64 (estimate_f64 n c e) - 32 / 100 * annual_savings_f64 (estimate_f64 n c e)\<bar>
     \<le> \<bar>annual_savings_f64 (estimate_f64 n c e)\<bar> / 2 ^ 52"
proof -
  define a where "a = annual_savings_f64 (estimate_f64 n c e)"
  define c8 :: rat where "c8 = 3602879701896397 / 4503599627370496"
  define c4 :: rat where "c4 = 3602879701896397 / 9007199254740992"
  have ca: "carbon_reduced_f64 (estimate_f64 n c e) = fl (fl (a * c8) * c4)"
    by (simp only: a_def c8_def c4_def estimate_f64_def Let_def float_mul_def fl_8_10 fl_4_10
        roi_f64.select_convs)
  have step: "\<bar>fl (fl (a * c8) * c4) - a * (c8 * c4)\<bar>
                \<le> \<bar>a\<bar> * (c8 * c4 * (2 / 2 ^ 53 + 1 / 2 ^ 106))"
    by (rule two_step_error) (simp_all add: c8_def c4_def)
  have "\<bar>fl (fl (a * c8) * c4) - 32 / 100 * a\<bar>
          = \<bar>(fl (fl (a * c8) * c4) - a * (c8 * c4)) + a * (c8 * c4 - 32 / 100)\<bar>"
    by (simp add: algebra_simps)
  also have "\<dots> \<le> \<bar>fl (fl (a * c8) * c4) - a * (c8 * c4)\<bar> + \<bar>a * (c8 * c4 - 32 / 100)\<bar>"
    by (rule abs_triangle_ineq)
  also have "\<dots> \<le> \<bar>a\<bar> * (c8 * c4 * (2 / 2 ^ 53 + 1 / 2 ^ 106)) + \<bar>a\<bar> * \<bar>c8 * c4 - 32 / 100\<bar>"
    using step by (simp add: abs_mult)
  also have "\<dots> = \<bar>a\<bar> * (c8 * c4 * (2 / 2 ^ 53 + 1 / 2 ^ 106) + \<bar>c8 * c4 - 32 / 100\<bar>)"
    by (simp add: algebra_simps)
  also have "\<dots> \<le> \<bar>a\<bar> * (1 / 2 ^ 52)"
    by (intro mult_left_mono) (simp_all add: c8_def c4_def)
  finally show ?thesis
    by (simp add: ca a_def)
qed

text \<open>
  C4 (as the spec states it): for every valid input, energy saved is annual savings times
  0.8, carbon reduced is energy saved times 0.4, and hence carbon reduced is 0.32 times the
  annual savings; the tree equivalent is carbon reduced divided by 21. The "hence" fails on
  the doubles the code computes with. At the default inputs (50 servers, cost 15000,
  efficiency 65) \<^verbatim>\<open>carbon_reduced\<close> is 4065.8823529411766, while \<^verbatim>\<open>0.32 * annual_savings\<close>
  is 4065.882352941176, one unit in the last place less; the exact product
  \<open>0.32 * annual_savings\<close> is a third number.
\<close>

theorem estimate_f64_carbon_reduced_differs:
  "carbon_reduced_f64 (estimate_f64 50 15000 65) = 2235242462114033 / 549755813888 \<and>
   float_mul (fl (32 / 100)) (annual_savings_f64 (estimate_f64 50 15000 65))
     = 8940969848456131 / 2199023255552 \<and>
   carbon_reduced_f64 (estimate_f64 50 15000 65)
     \<noteq> float_mul (fl (32 / 100)) (annual_savings_f64 (estimate_f64 50 15000 65)) \<and>
   carbon_reduced_f64 (estimate_f64 50 15000 65)
     \<noteq> 32 / 100 * annual_savings_f64 (estimate_f64 50 15000 65)"
proof -
  have a: "annual_savings_f64 (estimate_f64 50 15000 65) = 436570793381647 / 34359738368"
    by code_simp
  have c: "carbon_reduced_f64 (estimate_f64 50 15000 65) = 2235242462114033 / 549755813888"
    by code_simp
  have m: "float_mul (fl (32 / 100)) (436570793381647 / 34359738368)
             = 8940969848456131 / 2199023255552"
    by code_simp
  show ?thesis
    unfolding a c m by simp
qed

text \<open>
  C4 (amended): for every input, in the double arithmetic of the code, energy saved is
  annual savings times 0.8, carbon reduced is energy saved times 0.4, and the tree
  equivalent is carbon reduced divided by 21, each the correctly rounded result of that one
  operation; carbon reduced agrees with 0.32 times the annual savings up to rounding, the
  two differing by at most \<open>\<bar>annual_savings\<bar> / 2 ^ 52\<close>.
\<close>

theorem estimate_f64_environmental_impact:
  "energy_saved_f64 (estimate_f64 n c e)
     = float_mul (annual_savings_f64 (estimate_f64 n c e)) (fl (8 / 10)) \<and>
   carbon_reduced_f64 (estimate_f64 n c e)
     = float_mul (energy_saved_f64 (estimate_f64 n c e)) (fl (4 / 10)) \<and>
   trees_equivalent_f64 (estimate_f64 n c e)
     = float_div (carbon_reduced_f64 (estimate_f64 n c e)) (float_of_int 21) \<and>
   \<bar>carbon_reduced_f64 (estimate_f64 n c e)
      - 32 / 100 * annual_savings_f64 (estimate_f64 n c e)\<bar>
     \<le> \<bar>annual_savings_f64 (estimate_f64 n c e)\<bar> / 2 ^ 52"
proof (intro conjI)
  show "energy_saved_f64 (estimate_f64 n c e)
          = float_mul (annual_savings_f64 (estimate_f64 n c e)) (fl (8 / 10))"
    by (simp only: estimate_f64_def Let_def roi_f64.select_convs)
  show "carbon_reduced_f64 (estimate_f64 n c e)
          = float_mul (energy_saved_f64 (estimate_f64 n c e)) (fl (4 / 10))"
    by (simp only: estimate_f64_def Let_def roi_f64.select_convs)
  show "trees_equivalent_f64 (estimate_f64 n c e)
          = float_div (carbon_reduced_f64 (estimate_f64 n c e)) (float_of_int 21)"
    by (simp only: estimate_f64_def Let_def roi_f64.select_convs)
  show "\<bar>carbon_reduced_f64 (estimate_f64 n c e)
            - 32 / 100 * annual_savings_f64 (estimate_f64 n c e)\<bar>
          \<le> \<bar>annual_savings_f64 (estimate_f64 n c e)\<bar> / 2 ^ 52"
    by (rule carbon_reduced_f64_close)
qed

subsection \<open>Monotonicity in the efficiency\<close>

text \<open>
  C5: for a fixed server count and a fixed positive monthly cost, and efficiencies
  \<open>e1 < e2\<close> in the slider's range 30 to 90, the monthly savings at \<open>e1\<close> are at least the
  monthly savings at \<open>e2\<close>.
\<close>

theorem estimate_monotonic_in_efficiency:
  assumes "0 < c" and "30 \<le> e1" and "e1 < e2" and "e2 \<le> 90"
  shows "monthly_savings (estimate n c e1) \<ge> monthly_savings (estimate n c e2)"
  using assms by (intro monthly_savings_antimono) simp_all

theorem estimate_monotonic_in_efficiency_witness:
  "monthly_savings (estimate 50 15000 65) \<ge> monthly_savings (estimate 50 15000 66) \<and>
   monthly_savings (estimate 50 15000 65) = 18000 / 17 \<and>
   monthly_savings (estimate 50 15000 66) = 17100 / 17"
  using estimate_monotonic_in_efficiency [of 15000 65 66 50]
  by (simp add: monthly_savings_eq)

subsection \<open>The unused server count\<close>

text \<open>
  C9: the result does not depend on the server count: two runs with the same monthly cost
  and efficiency give the same result in every field, whatever the two server counts.
\<close>

theorem estimate_ignores_num_servers:
  "estimate n1 c e = estimate n2 c e"
  by (simp add: estimate_def)

subsection \<open>The cumulative-savings series\<close>

text \<open>
  C8: for every input (valid or not) the cumulative-savings series has exactly 12 entries,
  and for every month \<open>m\<close> from 1 to 12 the entry for month \<open>m\<close> (the \<open>m\<close>-th entry, at
  Python index \<open>m - 1\<close>) is the monthly savings times \<open>m\<close>.
\<close>

theorem estimate_cumulative_savings:
  "length (cumulative_savings (estimate n c e)) = 12 \<and>
   (\<forall>m\<in>{1..12}. cumulative_savings (estimate n c e) ! (m - 1)
                    = monthly_savings (estimate n c e) * real m)"
proof (intro conjI ballI)
  show "length (cumulative_savings (estimate n c e)) = 12"
    by (simp add: cumulative_savings_eq)
next
  fix m :: nat
  assume m: "m \<in> {1..12}"
  then have idx: "[1..12] ! (m - 1) = int m"
    by (simp add: nth_upto)
  from m have "m - 1 < length [1..12::int]"
    by auto
  then show "cumulative_savings (estimate n c e) ! (m - 1)
               = monthly_savings (estimate n c e) * real m"
    unfolding cumulative_savings_eq by (simp only: nth_map idx of_int_of_nat_eq)
qed

theorem estimate_cumulative_savings_witness:
  "length (cumulative_savings (estimate 50 15000 65)) = 12 \<and>
   cumulative_savings (estimate 50 15000 65) ! 11 = monthly_savings (estimate 50 15000 65) * 12 \<and>
   monthly_savings (estimate 50 15000 65) * 12 = 216000 / 17"
proof -
  have h: "(12::nat) \<in> {1..12}"
    by simp
  have len: "length (cumulative_savings (estimate 50 15000 65)) = 12"
    using estimate_cumulative_savings [of 50 15000 65] by (rule conjunct1)
  have "cumulative_savings (estimate 50 15000 65) ! (12 - 1)
          = monthly_savings (estimate 50 15000 65) * real (12::nat)"
    using estimate_cumulative_savings [of 50 15000 65] h by blast
  then have last: "cumulative_savings (estimate 50 15000 65) ! 11
          = monthly_savings (estimate 50 15000 65) * 12"
    by simp
  have "monthly_savings (estimate 50 15000 65) * 12 = 216000 / 17"
    by (simp add: monthly_savings_eq)
  with len last show ?thesis
    by simp
qed

subsection \<open>Efficiencies above the cap\<close>

text \<open>
  C10: for a positive monthly cost and an efficiency above 85 and at most 90 (the slider
  allows it), the monthly and the annual savings are strictly negative, and the ROI months
  are what they are at efficiency 85, where the savings are zero: the integer 0 of the
  else branch, since \<open>monthly_savings > 0\<close> is false.
\<close>

theorem estimate_above_cap_negative:
  assumes "0 < c" and "85 < e" and "e \<le> 90"
  shows "monthly_savings (estimate n c e) < 0 \<and>
         annual_savings (estimate n c e) < 0 \<and>
         roi_months (estimate n c e) = roi_months (estimate n c 85) \<and>
         roi_months (estimate n c e) = PInt 0"
proof -
  have "real_of_int c * (real_of_int (85 - e) / 85 * 100 / 100) * 0.3 < 0"
    using assms by (simp add: mult_less_0_iff)
  then have neg: "monthly_savings (estimate n c e) < 0"
    by (simp only: monthly_savings_eq)
  then have "annual_savings (estimate n c e) < 0"
    by (simp add: annual_savings_eq)
  moreover from neg have "roi_months (estimate n c e) = PInt 0"
    by (simp add: roi_months_eq)
  moreover have "roi_months (estimate n c 85) = PInt 0"
    by (simp add: roi_months_eq monthly_savings_eq)
  ultimately show ?thesis
    using neg by simp
qed

theorem estimate_above_cap_negative_witness:
  "monthly_savings (estimate 50 15000 90) < 0 \<and>
   annual_savings (estimate 50 15000 90) < 0 \<and>
   roi_months (estimate 50 15000 90) = roi_months (estimate 50 15000 85) \<and>
   roi_months (estimate 50 15000 90) = PInt 0"
  by (rule estimate_above_cap_negative) simp_all

subsection \<open>The rows of the data frame\<close>

lemma pd_Timestamp_2025: "pd_Timestamp 2025 1 1 = 1735689600000000000"
  by (simp add: pd_Timestamp_def days_from_civil_def hour_ns_def Let_def)

lemma loop_body_snd: "snd (loop_body z i h k) = k + 8"
  by (simp add: loop_body_def gauss_def Let_def)

lemma loop_body_timestamp: "timestamp (fst (loop_body z i h k)) = h"
  by (simp add: loop_body_def gauss_def Let_def)

lemma loop_body_cpu_usage:
  "cpu_usage (fst (loop_body z i h k)) = min 95 (45 + 20 * sin (2 * pi * real i / 24) + (0 + z (k + 4) * 5))"
  by (simp add: loop_body_def gauss_def Let_def eval_nat_numeral)

lemma loop_body_memory_usage:
  "memory_usage (fst (loop_body z i h k)) = min 95 (60 + 15 * sin (2 * pi * real i / 24) + (0 + z (k + 5) * 5))"
  by (simp add: loop_body_def gauss_def Let_def eval_nat_numeral)

lemma loop_body_gpu_usage:
  "gpu_usage (fst (loop_body z i h k)) = min 95 (max 0 (30 + 40 * sin (2 * pi * real i / 24) + (0 + z k * 10)))"
  by (simp add: loop_body_def gauss_def Let_def)

lemma generate_loop_enumerate:
  "generate_loop z (enumerate n hs) k data =
     (data @ map (\<lambda>j. fst (loop_body z (n + j) (hs ! j) (k + 8 * j))) [0..<length hs],
      k + 8 * length hs)"
proof (induction hs arbitrary: n k data)
  case Nil
  then show ?case by simp
next
  case (Cons h hs)
  have "generate_loop z (enumerate n (h # hs)) k data =
          generate_loop z (enumerate (Suc n) hs) (k + 8) (data @ [fst (loop_body z n h k)])"
    using loop_body_snd [of z n h k]
    by (cases "loop_body z n h k") simp
  also have "\<dots> = ((data @ [fst (loop_body z n h k)]) @
       map (\<lambda>j. fst (loop_body z (Suc n + j) (hs ! j) (k + 8 + 8 * j))) [0..<length hs],
       k + 8 + 8 * length hs)"
    by (rule Cons.IH)
  also have "\<dots> = (data @ map (\<lambda>j. fst (loop_body z (n + j) ((h # hs) ! j) (k + 8 * j)))
       [0..<length (h # hs)], k + 8 * length (h # hs))"
    by (simp del: upt_Suc add: map_upt_Suc add.assoc)
  finally show ?case .
qed


lemma generate_resource_data_eq:
  "generate_resource_data z k =
     (map (\<lambda>j. fst (loop_body z j (pd_Timestamp 2025 1 1 + int j * hour_ns) (k + 8 * j))) [0..<168],
      k + 1344)"
proof -
  let ?hs = "date_range (pd_Timestamp 2025 1 1) 168 hour_ns"
  have len: "length ?hs = 168"
    by (simp add: date_range_def)
  have "map (\<lambda>j. fst (loop_body z (0 + j) (?hs ! j) (k + 8 * j))) [0..<168] =
        map (\<lambda>j. fst (loop_body z j (pd_Timestamp 2025 1 1 + int j * hour_ns) (k + 8 * j))) [0..<168]"
    by (rule map_cong) (simp_all add: date_range_def)
  then show ?thesis
    by (simp add: generate_resource_data_def generate_loop_enumerate len)
qed

lemma generate_resource_data_length:
  "length (fst (generate_resource_data z k)) = 168"
  by (simp add: generate_resource_data_eq)

lemma generate_resource_data_nth:
  assumes "i < 168"
  shows "fst (generate_resource_data z k) ! i =
           fst (loop_body z i (pd_Timestamp 2025 1 1 + int i * hour_ns) (k + 8 * i))"
  using assms by (simp add: generate_resource_data_eq)

lemma generate_resource_data_timestamps:
  "map timestamp (fst (generate_resource_data z k)) =
     map (\<lambda>j. pd_Timestamp 2025 1 1 + int j * hour_ns) [0..<168]"
  by (simp add: generate_resource_data_eq loop_body_timestamp comp_def)

subsection \<open>Sample count and timestamps\<close>

text \<open>
  C6: every call of the generator, whatever the random variates and the generator state,
  returns exactly 168 samples; sample \<open>i\<close> carries the timestamp 2025-01-01 00:00 plus \<open>i\<close>
  hours, so the first is the fixed date, consecutive timestamps are exactly one hour apart,
  and the timestamps are strictly increasing.
\<close>

theorem generate_resource_data_timestamps_hourly:
  "length (fst (generate_resource_data z k)) = 168 \<and>
   (\<forall>i<168. timestamp (fst (generate_resource_data z k) ! i)
               = pd_Timestamp 2025 1 1 + int i * hour_ns) \<and>
   (\<forall>i. Suc i < 168 \<longrightarrow>
        timestamp (fst (generate_resource_data z k) ! Suc i)
          - timestamp (fst (generate_resource_data z k) ! i) = hour_ns) \<and>
   sorted_wrt (<) (map timestamp (fst (generate_resource_data z k)))"
proof (intro conjI allI impI)
  show "length (fst (generate_resource_data z k)) = 168"
    by (rule generate_resource_data_length)
next
  fix i :: nat
  assume "i < 168"
  then show "timestamp (fst (generate_resource_data z k) ! i)
               = pd_Timestamp 2025 1 1 + int i * hour_ns"
    by (simp add: generate_resource_data_nth loop_body_timestamp)
next
  fix i :: nat
  assume "Suc i < 168"
  then have "i < 168" by simp
  with \<open>Suc i < 168\<close>
  show "timestamp (fst (generate_resource_data z k) ! Suc i)
          - timestamp (fst (generate_resource_data z k) ! i) = hour_ns"
    by (simp add: generate_resource_data_nth loop_body_timestamp algebra_simps)
next
  have "sorted_wrt (<) (map (\<lambda>j. pd_Timestamp 2025 1 1 + int j * hour_ns) [0..<168])"
    by (simp add: sorted_wrt_map sorted_wrt_iff_nth_less hour_ns_def del: upt_Suc)
  then show "sorted_wrt (<) (map timestamp (fst (generate_resource_data z k)))"
    by (simp only: generate_resource_data_timestamps)
qed

theorem generate_resource_data_timestamps_hourly_witness:
  "length (fst (generate_resource_data (\<lambda>_. 0) 0)) = 168 \<and>
   timestamp (fst (generate_resource_data (\<lambda>_. 0) 0) ! 0) = 1735689600000000000 \<and>
   timestamp (fst (generate_resource_data (\<lambda>_. 0) 0) ! 1)
     - timestamp (fst (generate_resource_data (\<lambda>_. 0) 0) ! 0) = 3600000000000"
proof -
  note t = generate_resource_data_timestamps_hourly [of "\<lambda>_. 0" 0]
  have a: "length (fst (generate_resource_data (\<lambda>_. 0) 0)) = 168"
    using t by (rule conjunct1)
  have "timestamp (fst (generate_resource_data (\<lambda>_. 0) 0) ! 0) = pd_Timestamp 2025 1 1 + int 0 * hour_ns"
    using t by simp
  then have b: "timestamp (fst (generate_resource_data (\<lambda>_. 0) 0) ! 0) = 1735689600000000000"
    by (simp add: pd_Timestamp_2025)
  have "timestamp (fst (generate_resource_data (\<lambda>_. 0) 0) ! Suc 0)
     - timestamp (fst (generate_resource_data (\<lambda>_. 0) 0) ! 0) = hour_ns"
    using t by simp
  then have c: "timestamp (fst (generate_resource_data (\<lambda>_. 0) 0) ! 1)
     - timestamp (fst (generate_resource_data (\<lambda>_. 0) 0) ! 0) = 3600000000000"
    by (simp add: hour_ns_def)
  from a b c show ?thesis by simp
qed

subsection \<open>The range of the usage fields\<close>

text \<open>
  What the code guarantees: the three usage fields are at most 95, and the GPU usage is at
  least 0, because \<open>base_gpu\<close> is clamped by \<^verbatim>\<open>max(0, ...)\<close> on line 60. The CPU and
  memory usage have no lower clamp.
\<close>

lemma generate_resource_data_usage_bounds:
  assumes "i < 168"
  shows "cpu_usage (fst (generate_resource_data z k) ! i) \<le> 95 \<and>
         memory_usage (fst (generate_resource_data z k) ! i) \<le> 95 \<and>
         0 \<le> gpu_usage (fst (generate_resource_data z k) ! i) \<and>
         gpu_usage (fst (generate_resource_data z k) ! i) \<le> 95"
  using assms
  by (simp add: generate_resource_data_nth loop_body_cpu_usage loop_body_memory_usage
      loop_body_gpu_usage)


text \<open>
  At index 18 the sine is \<open>-1\<close> and \<open>base_cpu\<close> is 25, its minimum.
\<close>

lemma sin_18: "sin (2 * pi * real (18::nat) / 24) = -1"
proof -
  have "2 * pi * real (18::nat) / 24 = 3 / 2 * pi"
    by simp
  then show ?thesis
    by (simp only: sin_3over2_pi)
qed

text \<open>
  C1: for every sample index the fields \<open>cpu_usage\<close>, \<open>memory_usage\<close> and \<open>gpu_usage\<close>
  lie in the closed interval from 0 to 95. The code breaks the lower bound for
  \<open>cpu_usage\<close>: when the noise draw of line 69 at index 18 (the 149th variate of the
  call) is six standard deviations below the mean, \<^verbatim>\<open>random.gauss(0, 5)\<close> is \<open>-30\<close> and
  \<open>cpu_usage = min(95, 25 - 30) = -5\<close>.
\<close>

theorem generate_resource_data_cpu_usage_negative:
  "cpu_usage (fst (generate_resource_data (\<lambda>k. if k = 148 then - 6 else 0) 0) ! 18) = - 5"
proof -
  have "cpu_usage (fst (generate_resource_data (\<lambda>k. if k = 148 then - 6 else 0) 0) ! 18)
          = min 95 (45 + 20 * sin (2 * pi * real (18::nat) / 24) + (0 + (- 6) * 5))"
    by (simp add: generate_resource_data_nth loop_body_cpu_usage del: of_nat_numeral)
  then have "cpu_usage (fst (generate_resource_data (\<lambda>k. if k = 148 then - 6 else 0) 0) ! 18)
          = min 95 (45 + 20 * (- 1) + (0 + (- 6) * 5))"
    by (simp only: sin_18)
  then show ?thesis
    by simp
qed

subsection \<open>Runs of the script and the state of the process\<close>

text \<open>
  The state of the process does reach what a run computes: two fresh sessions whose
  generators produce different variates give different data frames.
\<close>

lemma main_df_fresh:
  "data_frame (fst (main \<lparr>variates = z, drawn = k, cached_data = None\<rparr> n c e))
     = fst (generate_resource_data z k)"
  by (simp add: main_def cached_generate_resource_data_def split: prod.splits)

lemma main_df_depends_on_session:
  "data_frame (fst (main \<lparr>variates = (\<lambda>_. 0), drawn = 0, cached_data = None\<rparr> 50 15000 65))
     \<noteq> data_frame (fst (main \<lparr>variates = (\<lambda>_. 1), drawn = 0, cached_data = None\<rparr> 50 15000 65))"
proof
  assume eq: "data_frame (fst (main \<lparr>variates = (\<lambda>_. 0), drawn = 0, cached_data = None\<rparr> 50 15000 65))
     = data_frame (fst (main \<lparr>variates = (\<lambda>_. 1), drawn = 0, cached_data = None\<rparr> 50 15000 65))"
  then have "fst (generate_resource_data (\<lambda>_. 0) 0) ! 0 = fst (generate_resource_data (\<lambda>_. 1) 0) ! 0"
    by (simp only: main_df_fresh)
  then have "cpu_usage (fst (generate_resource_data (\<lambda>_. 0) 0) ! 0)
           = cpu_usage (fst (generate_resource_data (\<lambda>_. 1) 0) ! 0)"
    by simp
  then show False
    by (simp add: generate_resource_data_nth loop_body_cpu_usage)
qed

lemma main_roi: "roi (fst (main s n c e)) = estimate n c e"
  by (simp add: main_def split: prod.splits)

text \<open>
  C7: two runs of the script with the same server count, monthly cost and efficiency give
  the same calculator outputs in every field (optimization potential, monthly and annual
  savings, ROI months, cumulative savings, energy saved, carbon reduced, trees
  equivalent), whatever the state of the process in each of the two runs: the variates
  of the random generator, the number already drawn, the cached data frame. In
  particular a run repeated in the state the first run left behind gives them again.
\<close>

theorem main_roi_deterministic:
  "roi (fst (main s1 n c e)) = roi (fst (main s2 n c e)) \<and>
   roi (fst (main (snd (main s1 n c e)) n c e)) = roi (fst (main s1 n c e))"
  by (simp add: main_def split: prod.splits)

end
